theory Spec2Isabelle
  imports Complex_Main
begin

section \<open>Numbers and the three.js value types\<close>

text \<open>
  JavaScript numbers are modelled as idealised reals. The vector, quaternion and Euler
  operations below are the three.js methods that \<open>Drone.update\<close> calls; three.js mutates
  the receiver in place, the model returns the new value. A second model of \<open>update\<close>,
  further down, computes with numbers that may be NaN; on numbers the two agree
  (lemma \<open>update_num\<close>).
\<close>

datatype vec3 = Vector3 (vx: real) (vy: real) (vz: real)

datatype quat = Quaternion (qx: real) (qy: real) (qz: real) (qw: real)

datatype euler = Euler (ex: real) (ey: real) (ez: real)

definition lerp :: "vec3 \<Rightarrow> vec3 \<Rightarrow> real \<Rightarrow> vec3" where
  \<comment> \<open>\<open>Vector3.lerp(v, alpha)\<close>: \<open>this.x += (v.x - this.x) * alpha\<close>, no clamping of alpha.\<close>
  "lerp a v alpha =
     Vector3 (vx a + (vx v - vx a) * alpha)
             (vy a + (vy v - vy a) * alpha)
             (vz a + (vz v - vz a) * alpha)"

definition multiplyScalar :: "vec3 \<Rightarrow> real \<Rightarrow> vec3" where
  "multiplyScalar a s = Vector3 (vx a * s) (vy a * s) (vz a * s)"

definition add_v :: "vec3 \<Rightarrow> vec3 \<Rightarrow> vec3" where
  \<comment> \<open>\<open>Vector3.add(v)\<close>\<close>
  "add_v a v = Vector3 (vx a + vx v) (vy a + vy v) (vz a + vz v)"

definition length_v :: "vec3 \<Rightarrow> real" where
  \<comment> \<open>\<open>Vector3.length()\<close>\<close>
  "length_v a = sqrt (vx a * vx a + vy a * vy a + vz a * vz a)"

definition normalize_v :: "vec3 \<Rightarrow> vec3" where
  \<comment> \<open>\<open>Vector3.normalize()\<close>: \<open>divideScalar(this.length() || 1)\<close>, and
      \<open>divideScalar(s)\<close> is \<open>multiplyScalar(1 / s)\<close>.\<close>
  "normalize_v a = multiplyScalar a (1 / (if length_v a = 0 then 1 else length_v a))"

definition applyQuaternion :: "vec3 \<Rightarrow> quat \<Rightarrow> vec3" where
  \<comment> \<open>\<open>Vector3.applyQuaternion(q)\<close>: \<open>t = 2 * cross(q.xyz, v)\<close>, then
      \<open>v + q.w * t + cross(q.xyz, t)\<close>.\<close>
  "applyQuaternion a q =
     (let tx = 2 * (qy q * vz a - qz q * vy a);
          ty = 2 * (qz q * vx a - qx q * vz a);
          tz = 2 * (qx q * vy a - qy q * vx a)
      in Vector3 (vx a + qw q * tx + qy q * tz - qz q * ty)
                 (vy a + qw q * ty + qz q * tx - qx q * tz)
                 (vz a + qw q * tz + qx q * ty - qy q * tx))"

definition setFromAxisAngle :: "vec3 \<Rightarrow> real \<Rightarrow> quat" where
  \<comment> \<open>\<open>Quaternion.setFromAxisAngle(axis, angle)\<close>\<close>
  "setFromAxisAngle axis angle =
     (let halfAngle = angle / 2; s = sin halfAngle
      in Quaternion (vx axis * s) (vy axis * s) (vz axis * s) (cos halfAngle))"

definition multiply :: "quat \<Rightarrow> quat \<Rightarrow> quat" where
  \<comment> \<open>\<open>Quaternion.multiply(q)\<close>, that is \<open>multiplyQuaternions(this, q)\<close>\<close>
  "multiply a b =
     Quaternion (qx a * qw b + qw a * qx b + qy a * qz b - qz a * qy b)
                (qy a * qw b + qw a * qy b + qz a * qx b - qx a * qz b)
                (qz a * qw b + qw a * qz b + qx a * qy b - qy a * qx b)
                (qw a * qw b - qx a * qx b - qy a * qy b - qz a * qz b)"

definition length_q :: "quat \<Rightarrow> real" where
  \<comment> \<open>\<open>Quaternion.length()\<close>\<close>
  "length_q q = sqrt (qx q * qx q + qy q * qy q + qz q * qz q + qw q * qw q)"

definition rotateOnAxis :: "quat \<Rightarrow> vec3 \<Rightarrow> real \<Rightarrow> quat" where
  \<comment> \<open>\<open>Object3D.rotateOnAxis(axis, angle)\<close>:
      \<open>_q1.setFromAxisAngle(axis, angle); this.quaternion.multiply(_q1)\<close>\<close>
  "rotateOnAxis q axis angle = multiply q (setFromAxisAngle axis angle)"

definition rotateX :: "quat \<Rightarrow> real \<Rightarrow> quat" where
  "rotateX q angle = rotateOnAxis q (Vector3 1 0 0) angle"

definition rotateY :: "quat \<Rightarrow> real \<Rightarrow> quat" where
  "rotateY q angle = rotateOnAxis q (Vector3 0 1 0) angle"

definition rotateZ :: "quat \<Rightarrow> real \<Rightarrow> quat" where
  "rotateZ q angle = rotateOnAxis q (Vector3 0 0 1) angle"

definition clamp :: "real \<Rightarrow> real \<Rightarrow> real \<Rightarrow> real" where
  \<comment> \<open>\<open>MathUtils.clamp(value, min, max)\<close>\<close>
  "clamp v lo hi = max lo (min hi v)"

definition atan2 :: "real \<Rightarrow> real \<Rightarrow> real" where
  \<comment> \<open>\<open>Math.atan2(y, x)\<close> on reals (no signed zero).\<close>
  "atan2 b a =
     (if 0 < a then arctan (b / a)
      else if a < 0 then (if 0 \<le> b then arctan (b / a) + pi else arctan (b / a) - pi)
      else if 0 < b then pi / 2
      else if b < 0 then - (pi / 2)
      else 0)"

definition setFromQuaternion :: "quat \<Rightarrow> euler" where
  \<comment> \<open>\<open>Euler.setFromQuaternion(q, 'YXZ')\<close>: the rotation matrix of \<open>q\<close>
      (\<open>Matrix4.makeRotationFromQuaternion\<close>), then the \<open>'YXZ'\<close> case of
      \<open>Euler.setFromRotationMatrix\<close>.\<close>
  "setFromQuaternion q =
     (let x2 = qx q + qx q; y2 = qy q + qy q; z2 = qz q + qz q;
          xx = qx q * x2; xy = qx q * y2; xz = qx q * z2;
          yy = qy q * y2; yz = qy q * z2; zz = qz q * z2;
          wx = qw q * x2; wy = qw q * y2; wz = qw q * z2;
          m11 = 1 - (yy + zz); m21 = xy + wz; m31 = xz - wy;
          m22 = 1 - (xx + zz);
          m13 = xz + wy; m23 = yz - wx; m33 = 1 - (xx + yy)
      in if \<bar>m23\<bar> < 0.9999999
         then Euler (arcsin (- clamp m23 (- 1) 1)) (atan2 m13 m33) (atan2 m21 m22)
         else Euler (arcsin (- clamp m23 (- 1) 1)) (atan2 (- m31) m11) 0)"

section \<open>The drone (physics.js)\<close>

datatype flight_mode = ACRO | LEVEL

text \<open>
  The fields of \<open>Drone\<close> that \<open>update\<close> reads or writes: \<open>position\<close> and \<open>quaternion\<close>
  are \<open>this.mesh.position\<close> and \<open>this.mesh.quaternion\<close>.
\<close>

record drone =
  position :: vec3
  quaternion :: quat
  velocity :: vec3
  angularVelocity :: vec3
  maxThrust :: real
  drag :: real
  acroRate :: real
  angleRate :: real
  levelStrength :: real
  gravity :: real
  mode :: flight_mode
  collisionRadius :: real

text \<open>
  The object \<open>{ thrust, yaw, pitch, roll, toggleMode }\<close> that \<open>getState\<close> returns and
  \<open>update\<close> receives as \<open>input\<close>. The type of its numbers is a parameter: \<open>update\<close>
  computes with reals; \<open>getState\<close> may read an axis the gamepad does not have, so its
  numbers are \<open>real option\<close>, \<open>None\<close> standing for a value that is not a number.
\<close>

record 'n control_input =
  thrust :: 'n
  yaw :: 'n
  pitch :: 'n
  roll :: 'n
  toggleMode :: bool

text \<open>
  A collidable object answers a ray (origin, direction) with the distances of its
  intersections; \<open>Raycaster.intersectObjects\<close> gathers them over all objects and sorts
  them by ascending distance.
\<close>

type_synonym collidable = "vec3 \<Rightarrow> vec3 \<Rightarrow> real list"

definition intersectObjects :: "collidable list \<Rightarrow> vec3 \<Rightarrow> vec3 \<Rightarrow> real list" where
  "intersectObjects collidables origin direction =
     sort (concat (map (\<lambda>c. c origin direction) collidables))"

definition new_Drone :: drone where
  \<comment> \<open>The constructor: mesh at (0, 2, 0), identity rotation, at rest.\<close>
  "new_Drone =
     \<lparr> position = Vector3 0 2 0, quaternion = Quaternion 0 0 0 1,
       velocity = Vector3 0 0 0, angularVelocity = Vector3 0 0 0,
       maxThrust = 30, drag = 0.5, acroRate = 8, angleRate = 0.78,
       levelStrength = 15, gravity = - 9.81, mode = ACRO, collisionRadius = 0.5 \<rparr>"

definition setMode :: "flight_mode \<Rightarrow> drone \<Rightarrow> drone" where
  "setMode m d = d\<lparr>mode := m\<rparr>"

text \<open>\<open>update\<close>, in the order of its statements. Step 1, "Rotation Logic":\<close>

definition rotationLogic :: "real \<Rightarrow> real control_input \<Rightarrow> drone \<Rightarrow> drone" where
  "rotationLogic dt input d =
     (if mode d = ACRO then
        (let targetAngularVel =
               Vector3 (pitch input * acroRate d) (yaw input * acroRate d)
                       (roll input * acroRate d)
         in d\<lparr>angularVelocity := lerp (angularVelocity d) targetAngularVel (dt * 10)\<rparr>)
      else
        (let currentEuler = setFromQuaternion (quaternion d);
             targetPitch = pitch input * angleRate d;
             targetRoll = roll input * angleRate d;
             pitchError = targetPitch - ex currentEuler;
             rollError = targetRoll - ez currentEuler
         in d\<lparr>angularVelocity :=
                 Vector3 (pitchError * levelStrength d) (yaw input * acroRate d)
                         (rollError * levelStrength d)\<rparr>))"

text \<open>"Apply rotation": \<open>rotateX\<close>, then \<open>rotateY\<close>, then \<open>rotateZ\<close> on the mesh.\<close>

definition applyRotation :: "real \<Rightarrow> drone \<Rightarrow> drone" where
  "applyRotation dt d =
     d\<lparr>quaternion :=
         rotateZ (rotateY (rotateX (quaternion d) (vx (angularVelocity d) * dt))
                          (vy (angularVelocity d) * dt))
                 (vz (angularVelocity d) * dt)\<rparr>"

text \<open>"2. Thrust" and "3. Linear Physics": gravity, thrust, drag, then the velocity.\<close>

definition linearPhysics :: "real \<Rightarrow> real control_input \<Rightarrow> drone \<Rightarrow> drone" where
  "linearPhysics dt input d =
     (let thrustForce =
            multiplyScalar (applyQuaternion (Vector3 0 1 0) (quaternion d))
                           (thrust input * maxThrust d);
          acceleration = add_v (Vector3 0 (gravity d) 0) thrustForce;
          dragForce = multiplyScalar (velocity d) (- drag d);
          acceleration = add_v acceleration dragForce
      in d\<lparr>velocity := add_v (velocity d) (multiplyScalar acceleration dt)\<rparr>)"

text \<open>
  "Check for collisions BEFORE moving". The three calls of \<open>Math.random()\<close> are the
  argument \<open>rnd\<close>; each lies in the half-open interval from 0 to 1.
\<close>

definition crash :: "real \<Rightarrow> collidable list \<Rightarrow> drone \<Rightarrow> bool" where
  \<comment> \<open>Both conditions of the collision branch.\<close>
  "crash dt collidables d =
     (if collidables \<noteq> [] \<and> length_v (velocity d) > 0.1 then
        (let direction = normalize_v (velocity d);
             lookAhead = max (collisionRadius d) (length_v (velocity d) * dt * 2);
             intersects = intersectObjects collidables (position d) direction
         in case intersects of [] \<Rightarrow> False | nearest # _ \<Rightarrow> nearest < lookAhead)
      else False)"

definition collisionCheck ::
  "real \<Rightarrow> collidable list \<Rightarrow> real \<times> real \<times> real \<Rightarrow> drone \<Rightarrow> drone" where
  "collisionCheck dt collidables rnd d =
     (if crash dt collidables d then
        (case rnd of (r1, r2, r3) \<Rightarrow>
           d\<lparr>velocity := multiplyScalar (velocity d) (- 0.5),
             angularVelocity :=
               Vector3 ((r1 - 0.5) * 10) ((r2 - 0.5) * 10) ((r3 - 0.5) * 10)\<rparr>)
      else d)"

text \<open>"Update position" and "Ground collision (simple floor at y=0)".\<close>

definition updatePosition :: "real \<Rightarrow> drone \<Rightarrow> drone" where
  "updatePosition dt d =
     d\<lparr>position := add_v (position d) (multiplyScalar (velocity d) dt)\<rparr>"

definition groundCollision :: "drone \<Rightarrow> drone" where
  "groundCollision d =
     (if vy (position d) < 0.2 then
        d\<lparr>position := Vector3 (vx (position d)) 0.2 (vz (position d)),
          velocity := Vector3 (vx (velocity d) * 0.8)
                              (max 0 (vy (velocity d) * - 0.5))
                              (vz (velocity d) * 0.8)\<rparr>
      else d)"

definition update ::
  "real \<Rightarrow> real control_input \<Rightarrow> collidable list \<Rightarrow> real \<times> real \<times> real \<Rightarrow> drone \<Rightarrow> drone" where
  "update dt input collidables rnd d =
     groundCollision
       (updatePosition dt
         (collisionCheck dt collidables rnd
           (linearPhysics dt input (applyRotation dt (rotationLogic dt input d)))))"

text \<open>
  The game loop calls \<open>update\<close> once per frame and \<open>setMode\<close> when the mode is toggled.
  \<open>trajectory\<close> lists the state after each call of a sequence.
\<close>

datatype call =
    Update real "real control_input" "collidable list" "real \<times> real \<times> real"
  | SetMode flight_mode

fun apply_call :: "call \<Rightarrow> drone \<Rightarrow> drone" where
  "apply_call (Update dt input collidables rnd) d = update dt input collidables rnd d"
| "apply_call (SetMode m) d = setMode m d"

fun trajectory :: "drone \<Rightarrow> call list \<Rightarrow> drone list" where
  "trajectory d [] = []"
| "trajectory d (c # cs) = apply_call c d # trajectory (apply_call c d) cs"

definition between :: "real \<Rightarrow> real \<Rightarrow> real \<Rightarrow> bool" where
  \<comment> \<open>\<open>c\<close> lies between \<open>a\<close> and \<open>b\<close>, whichever of the two is larger.\<close>
  "between a b c = (min a b \<le> c \<and> c \<le> max a b)"

section \<open>The input handler (input.js)\<close>

text \<open>
  A gamepad as \<open>navigator.getGamepads()\<close> reports it: the axis values and the \<open>pressed\<close>
  flag of each button. \<open>getGamepads()\<close> itself is a list whose entries may be \<open>null\<close>.
\<close>

record gamepad =
  axes :: "real list"
  buttons :: "bool list"

datatype js_error = TypeError

record input_handler =
  keys :: "string \<Rightarrow> bool option"
  gamepadIndex :: "nat option"
  state_toggleMode :: bool

definition new_InputHandler :: input_handler where
  "new_InputHandler = \<lparr> keys = (\<lambda>code. None), gamepadIndex = None, state_toggleMode = False \<rparr>"

definition onKeyDown :: "string \<Rightarrow> input_handler \<Rightarrow> input_handler" where
  "onKeyDown code h =
     (let h = h\<lparr>keys := (keys h)(code := Some True)\<rparr>
      in if code = ''KeyM'' then h\<lparr>state_toggleMode := True\<rparr> else h)"

definition onKeyUp :: "string \<Rightarrow> input_handler \<Rightarrow> input_handler" where
  "onKeyUp code h =
     (let h = h\<lparr>keys := (keys h)(code := Some False)\<rparr>
      in if code = ''KeyM'' then h\<lparr>state_toggleMode := False\<rparr> else h)"

definition onGamepadConnected :: "nat \<Rightarrow> input_handler \<Rightarrow> input_handler" where
  "onGamepadConnected index h = h\<lparr>gamepadIndex := Some index\<rparr>"

definition onGamepadDisconnected :: "nat \<Rightarrow> input_handler \<Rightarrow> input_handler" where
  "onGamepadDisconnected index h =
     (if gamepadIndex h = Some index then h\<lparr>gamepadIndex := None\<rparr> else h)"

definition held :: "input_handler \<Rightarrow> string \<Rightarrow> bool" where
  \<comment> \<open>\<open>this.keys[code]\<close> is truthy; a code never seen is \<open>undefined\<close>.\<close>
  "held h code = (keys h code = Some True)"

definition getGamepad :: "gamepad option list \<Rightarrow> nat \<Rightarrow> gamepad option" where
  \<comment> \<open>\<open>navigator.getGamepads()[index]\<close>: \<open>null\<close> or, past the end, \<open>undefined\<close>.\<close>
  "getGamepad gamepads index = (if index < length gamepads then gamepads ! index else None)"

definition axis :: "gamepad \<Rightarrow> nat \<Rightarrow> real option" where
  \<comment> \<open>\<open>gp.axes[i]\<close>: \<open>undefined\<close> past the end.\<close>
  "axis gp i = (if i < length (axes gp) then Some (axes gp ! i) else None)"

definition deadzone :: "real option \<Rightarrow> real option" where
  \<comment> \<open>\<open>if (Math.abs(v) < 0.1) v = 0\<close>; the comparison is false when \<open>v\<close> is not a number.\<close>
  "deadzone v = (case v of None \<Rightarrow> None | Some a \<Rightarrow> if \<bar>a\<bar> < 0.1 then Some 0 else Some a)"

text \<open>
  "1. Gamepad Input (Priority)". Reading \<open>gp.buttons[0].pressed\<close> of a gamepad that has no
  button throws a \<open>TypeError\<close>.
\<close>

definition gamepadInput ::
  "gamepad option list \<Rightarrow> input_handler \<Rightarrow> real option control_input
     \<Rightarrow> js_error + real option control_input" where
  "gamepadInput gamepads h l =
     (case gamepadIndex h of
        None \<Rightarrow> Inr l
      | Some index \<Rightarrow>
          (case getGamepad gamepads index of
             None \<Rightarrow> Inr l
           | Some gp \<Rightarrow>
               (let l = l\<lparr>thrust := map_option (\<lambda>a. (- a + 1) / 2) (axis gp 1)\<rparr>;
                    l = l\<lparr>yaw := map_option uminus (axis gp 0)\<rparr>;
                    l = l\<lparr>pitch := axis gp 3\<rparr>;
                    l = l\<lparr>roll := axis gp 2\<rparr>;
                    l = l\<lparr>yaw := deadzone (yaw l)\<rparr>;
                    l = l\<lparr>pitch := deadzone (pitch l)\<rparr>;
                    l = l\<lparr>roll := deadzone (roll l)\<rparr>
                in case buttons gp of
                     [] \<Rightarrow> Inl TypeError
                   | pressed # _ \<Rightarrow> Inr (if pressed then l\<lparr>toggleMode := True\<rparr> else l))))"

text \<open>"2. Keyboard Input (Fallback/Override)": only when no gamepad index is recorded.\<close>

definition keyboardInput ::
  "input_handler \<Rightarrow> real option control_input \<Rightarrow> real option control_input" where
  "keyboardInput h l =
     (if gamepadIndex h = None then
        (let l = l\<lparr>thrust := Some 0\<rparr>;
             l = (if held h ''Space'' then l\<lparr>thrust := Some 1\<rparr> else l);
             l = (if held h ''ShiftLeft'' then l\<lparr>thrust := Some 0\<rparr> else l);
             l = (if held h ''KeyW'' then l\<lparr>pitch := Some (- 1)\<rparr> else l);
             l = (if held h ''KeyS'' then l\<lparr>pitch := Some 1\<rparr> else l);
             l = (if held h ''KeyA'' then l\<lparr>roll := Some (- 1)\<rparr> else l);
             l = (if held h ''KeyD'' then l\<lparr>roll := Some 1\<rparr> else l);
             l = (if held h ''KeyQ'' then l\<lparr>yaw := Some 1\<rparr> else l);
             l = (if held h ''KeyE'' then l\<lparr>yaw := Some (- 1)\<rparr> else l)
         in l)
      else l)"

text \<open>
  \<open>getState\<close>: the result (or the error thrown) and the handler afterwards, whose
  \<open>state.toggleMode\<close> has been consumed.
\<close>

definition getState ::
  "gamepad option list \<Rightarrow> input_handler
     \<Rightarrow> (js_error + real option control_input) \<times> input_handler" where
  "getState gamepads h =
     (let l = \<lparr> thrust = Some 0, yaw = Some 0, pitch = Some 0, roll = Some 0,
                 toggleMode = state_toggleMode h \<rparr>;
          h' = h\<lparr>state_toggleMode := False\<rparr>
      in (case gamepadInput gamepads h' l of
            Inl e \<Rightarrow> Inl e
          | Inr l \<Rightarrow> Inr (keyboardInput h' l),
          h'))"

section \<open>\<open>update\<close> on numbers that may be NaN\<close>

text \<open>
  \<open>getState\<close> can return an axis that is not a number, and the game loop passes its result
  to \<open>update\<close> unchanged. This second model of \<open>update\<close> computes with \<open>real option\<close>:
  \<open>None\<close> is NaN (and \<open>undefined\<close>, which arithmetic turns into NaN). Arithmetic is NaN as
  soon as one operand is, and every comparison with NaN is false. Overflow to Infinity is
  not modelled: an operation on two numbers gives the real result.
\<close>

instantiation option :: (plus) plus
begin
definition plus_option :: "'a option \<Rightarrow> 'a option \<Rightarrow> 'a option" where
  "plus_option a b =
     (case a of None \<Rightarrow> None
      | Some x \<Rightarrow> (case b of None \<Rightarrow> None | Some y \<Rightarrow> Some (x + y)))"
instance ..
end

instantiation option :: (minus) minus
begin
definition minus_option :: "'a option \<Rightarrow> 'a option \<Rightarrow> 'a option" where
  "minus_option a b =
     (case a of None \<Rightarrow> None
      | Some x \<Rightarrow> (case b of None \<Rightarrow> None | Some y \<Rightarrow> Some (x - y)))"
instance ..
end

instantiation option :: (uminus) uminus
begin
definition uminus_option :: "'a option \<Rightarrow> 'a option" where
  "uminus_option a = (case a of None \<Rightarrow> None | Some x \<Rightarrow> Some (- x))"
instance ..
end

instantiation option :: (times) times
begin
definition times_option :: "'a option \<Rightarrow> 'a option \<Rightarrow> 'a option" where
  "times_option a b =
     (case a of None \<Rightarrow> None
      | Some x \<Rightarrow> (case b of None \<Rightarrow> None | Some y \<Rightarrow> Some (x * y)))"
instance ..
end

instantiation option :: (inverse) inverse
begin
definition inverse_option :: "'a option \<Rightarrow> 'a option" where
  "inverse_option a = (case a of None \<Rightarrow> None | Some x \<Rightarrow> Some (inverse x))"
definition divide_option :: "'a option \<Rightarrow> 'a option \<Rightarrow> 'a option" where
  "divide_option a b =
     (case a of None \<Rightarrow> None
      | Some x \<Rightarrow> (case b of None \<Rightarrow> None | Some y \<Rightarrow> Some (x / y)))"
instance ..
end

instantiation option :: (ord) ord
begin
definition less_option :: "'a option \<Rightarrow> 'a option \<Rightarrow> bool" where
  "less_option a b =
     (case a of None \<Rightarrow> False
      | Some x \<Rightarrow> (case b of None \<Rightarrow> False | Some y \<Rightarrow> x < y))"
definition less_eq_option :: "'a option \<Rightarrow> 'a option \<Rightarrow> bool" where
  "less_eq_option a b =
     (case a of None \<Rightarrow> False
      | Some x \<Rightarrow> (case b of None \<Rightarrow> False | Some y \<Rightarrow> x \<le> y))"
instance ..
end

definition Math_max :: "real option \<Rightarrow> real option \<Rightarrow> real option" where
  \<comment> \<open>\<open>Math.max(a, b)\<close>: NaN when an argument is NaN.\<close>
  "Math_max a b =
     (case a of None \<Rightarrow> None
      | Some x \<Rightarrow> (case b of None \<Rightarrow> None | Some y \<Rightarrow> Some (max x y)))"

definition Math_min :: "real option \<Rightarrow> real option \<Rightarrow> real option" where
  "Math_min a b =
     (case a of None \<Rightarrow> None
      | Some x \<Rightarrow> (case b of None \<Rightarrow> None | Some y \<Rightarrow> Some (min x y)))"

definition Math_abs :: "real option \<Rightarrow> real option" where
  "Math_abs a = map_option abs a"

definition Math_sqrt :: "real option \<Rightarrow> real option" where
  "Math_sqrt a = map_option sqrt a"

definition Math_sin :: "real option \<Rightarrow> real option" where
  "Math_sin a = map_option sin a"

definition Math_cos :: "real option \<Rightarrow> real option" where
  "Math_cos a = map_option cos a"

definition Math_asin :: "real option \<Rightarrow> real option" where
  "Math_asin a = map_option arcsin a"

definition Math_atan2 :: "real option \<Rightarrow> real option \<Rightarrow> real option" where
  "Math_atan2 b a =
     (case b of None \<Rightarrow> None
      | Some y \<Rightarrow> (case a of None \<Rightarrow> None | Some x \<Rightarrow> Some (atan2 y x)))"

text \<open>The three.js values and methods once more, on these numbers.\<close>

datatype vec3_js = Vector3_js (vx_js: "real option") (vy_js: "real option") (vz_js: "real option")

datatype quat_js =
  Quaternion_js (qx_js: "real option") (qy_js: "real option") (qz_js: "real option")
    (qw_js: "real option")

datatype euler_js = Euler_js (ex_js: "real option") (ey_js: "real option") (ez_js: "real option")

definition lerp_js :: "vec3_js \<Rightarrow> vec3_js \<Rightarrow> real option \<Rightarrow> vec3_js" where
  "lerp_js a v alpha =
     Vector3_js (vx_js a + (vx_js v - vx_js a) * alpha)
                (vy_js a + (vy_js v - vy_js a) * alpha)
                (vz_js a + (vz_js v - vz_js a) * alpha)"

definition multiplyScalar_js :: "vec3_js \<Rightarrow> real option \<Rightarrow> vec3_js" where
  "multiplyScalar_js a s = Vector3_js (vx_js a * s) (vy_js a * s) (vz_js a * s)"

definition add_js :: "vec3_js \<Rightarrow> vec3_js \<Rightarrow> vec3_js" where
  "add_js a v = Vector3_js (vx_js a + vx_js v) (vy_js a + vy_js v) (vz_js a + vz_js v)"

definition length_js :: "vec3_js \<Rightarrow> real option" where
  "length_js a = Math_sqrt (vx_js a * vx_js a + vy_js a * vy_js a + vz_js a * vz_js a)"

definition normalize_js :: "vec3_js \<Rightarrow> vec3_js" where
  \<comment> \<open>\<open>this.length() || 1\<close>: both 0 and NaN are falsy.\<close>
  "normalize_js a =
     multiplyScalar_js a
       (Some 1 / (case length_js a of None \<Rightarrow> Some 1
                  | Some l \<Rightarrow> if l = 0 then Some 1 else Some l))"

definition applyQuaternion_js :: "vec3_js \<Rightarrow> quat_js \<Rightarrow> vec3_js" where
  "applyQuaternion_js a q =
     (let tx = Some 2 * (qy_js q * vz_js a - qz_js q * vy_js a);
          ty = Some 2 * (qz_js q * vx_js a - qx_js q * vz_js a);
          tz = Some 2 * (qx_js q * vy_js a - qy_js q * vx_js a)
      in Vector3_js (vx_js a + qw_js q * tx + qy_js q * tz - qz_js q * ty)
                    (vy_js a + qw_js q * ty + qz_js q * tx - qx_js q * tz)
                    (vz_js a + qw_js q * tz + qx_js q * ty - qy_js q * tx))"

definition setFromAxisAngle_js :: "vec3_js \<Rightarrow> real option \<Rightarrow> quat_js" where
  "setFromAxisAngle_js ax angle =
     (let halfAngle = angle / Some 2; s = Math_sin halfAngle
      in Quaternion_js (vx_js ax * s) (vy_js ax * s) (vz_js ax * s) (Math_cos halfAngle))"

definition multiply_js :: "quat_js \<Rightarrow> quat_js \<Rightarrow> quat_js" where
  "multiply_js a b =
     Quaternion_js
       (qx_js a * qw_js b + qw_js a * qx_js b + qy_js a * qz_js b - qz_js a * qy_js b)
       (qy_js a * qw_js b + qw_js a * qy_js b + qz_js a * qx_js b - qx_js a * qz_js b)
       (qz_js a * qw_js b + qw_js a * qz_js b + qx_js a * qy_js b - qy_js a * qx_js b)
       (qw_js a * qw_js b - qx_js a * qx_js b - qy_js a * qy_js b - qz_js a * qz_js b)"

definition length_q_js :: "quat_js \<Rightarrow> real option" where
  "length_q_js q =
     Math_sqrt (qx_js q * qx_js q + qy_js q * qy_js q + qz_js q * qz_js q + qw_js q * qw_js q)"

definition rotateOnAxis_js :: "quat_js \<Rightarrow> vec3_js \<Rightarrow> real option \<Rightarrow> quat_js" where
  "rotateOnAxis_js q ax angle = multiply_js q (setFromAxisAngle_js ax angle)"

definition rotateX_js :: "quat_js \<Rightarrow> real option \<Rightarrow> quat_js" where
  "rotateX_js q angle = rotateOnAxis_js q (Vector3_js (Some 1) (Some 0) (Some 0)) angle"

definition rotateY_js :: "quat_js \<Rightarrow> real option \<Rightarrow> quat_js" where
  "rotateY_js q angle = rotateOnAxis_js q (Vector3_js (Some 0) (Some 1) (Some 0)) angle"

definition rotateZ_js :: "quat_js \<Rightarrow> real option \<Rightarrow> quat_js" where
  "rotateZ_js q angle = rotateOnAxis_js q (Vector3_js (Some 0) (Some 0) (Some 1)) angle"

definition clamp_js :: "real option \<Rightarrow> real option \<Rightarrow> real option \<Rightarrow> real option" where
  "clamp_js v lo hi = Math_max lo (Math_min hi v)"

definition setFromQuaternion_js :: "quat_js \<Rightarrow> euler_js" where
  \<comment> \<open>When \<open>m23\<close> is NaN the test \<open>Math.abs(m23) < 0.9999999\<close> is false.\<close>
  "setFromQuaternion_js q =
     (let x2 = qx_js q + qx_js q; y2 = qy_js q + qy_js q; z2 = qz_js q + qz_js q;
          xx = qx_js q * x2; xy = qx_js q * y2; xz = qx_js q * z2;
          yy = qy_js q * y2; yz = qy_js q * z2; zz = qz_js q * z2;
          wx = qw_js q * x2; wy = qw_js q * y2; wz = qw_js q * z2;
          m11 = Some 1 - (yy + zz); m21 = xy + wz; m31 = xz - wy;
          m22 = Some 1 - (xx + zz);
          m13 = xz + wy; m23 = yz - wx; m33 = Some 1 - (xx + yy)
      in if Math_abs m23 < Some 0.9999999
         then Euler_js (Math_asin (- clamp_js m23 (Some (- 1)) (Some 1)))
                       (Math_atan2 m13 m33) (Math_atan2 m21 m22)
         else Euler_js (Math_asin (- clamp_js m23 (Some (- 1)) (Some 1)))
                       (Math_atan2 (- m31) m11) (Some 0))"

text \<open>
  The drone with a state that may hold NaN. The configuration is set to numbers by the
  constructor and never assigned again.
\<close>

record drone_js =
  position_js :: vec3_js
  quaternion_js :: quat_js
  velocity_js :: vec3_js
  angularVelocity_js :: vec3_js
  maxThrust_js :: real
  drag_js :: real
  acroRate_js :: real
  angleRate_js :: real
  levelStrength_js :: real
  gravity_js :: real
  mode_js :: flight_mode
  collisionRadius_js :: real

type_synonym collidable_js = "vec3_js \<Rightarrow> vec3_js \<Rightarrow> real list"

definition intersectObjects_js :: "collidable_js list \<Rightarrow> vec3_js \<Rightarrow> vec3_js \<Rightarrow> real list" where
  "intersectObjects_js collidables origin direction =
     sort (concat (map (\<lambda>c. c origin direction) collidables))"

definition rotationLogic_js :: "real option \<Rightarrow> real option control_input \<Rightarrow> drone_js \<Rightarrow> drone_js" where
  "rotationLogic_js dt input d =
     (if mode_js d = ACRO then
        (let targetAngularVel =
               Vector3_js (pitch input * Some (acroRate_js d)) (yaw input * Some (acroRate_js d))
                          (roll input * Some (acroRate_js d))
         in d\<lparr>angularVelocity_js :=
                 lerp_js (angularVelocity_js d) targetAngularVel (dt * Some 10)\<rparr>)
      else
        (let currentEuler = setFromQuaternion_js (quaternion_js d);
             targetPitch = pitch input * Some (angleRate_js d);
             targetRoll = roll input * Some (angleRate_js d);
             pitchError = targetPitch - ex_js currentEuler;
             rollError = targetRoll - ez_js currentEuler
         in d\<lparr>angularVelocity_js :=
                 Vector3_js (pitchError * Some (levelStrength_js d))
                            (yaw input * Some (acroRate_js d))
                            (rollError * Some (levelStrength_js d))\<rparr>))"

definition applyRotation_js :: "real option \<Rightarrow> drone_js \<Rightarrow> drone_js" where
  "applyRotation_js dt d =
     d\<lparr>quaternion_js :=
         rotateZ_js (rotateY_js (rotateX_js (quaternion_js d) (vx_js (angularVelocity_js d) * dt))
                                (vy_js (angularVelocity_js d) * dt))
                    (vz_js (angularVelocity_js d) * dt)\<rparr>"

definition linearPhysics_js :: "real option \<Rightarrow> real option control_input \<Rightarrow> drone_js \<Rightarrow> drone_js" where
  "linearPhysics_js dt input d =
     (let thrustForce =
            multiplyScalar_js
              (applyQuaternion_js (Vector3_js (Some 0) (Some 1) (Some 0)) (quaternion_js d))
              (thrust input * Some (maxThrust_js d));
          acceleration = add_js (Vector3_js (Some 0) (Some (gravity_js d)) (Some 0)) thrustForce;
          dragForce = multiplyScalar_js (velocity_js d) (Some (- drag_js d));
          acceleration = add_js acceleration dragForce
      in d\<lparr>velocity_js := add_js (velocity_js d) (multiplyScalar_js acceleration dt)\<rparr>)"

definition crash_js :: "real option \<Rightarrow> collidable_js list \<Rightarrow> drone_js \<Rightarrow> bool" where
  "crash_js dt collidables d =
     (if collidables \<noteq> [] \<and> Some 0.1 < length_js (velocity_js d) then
        (let direction = normalize_js (velocity_js d);
             lookAhead = Math_max (Some (collisionRadius_js d))
                                  (length_js (velocity_js d) * dt * Some 2);
             intersects = intersectObjects_js collidables (position_js d) direction
         in case intersects of [] \<Rightarrow> False | nearest # _ \<Rightarrow> Some nearest < lookAhead)
      else False)"

definition collisionCheck_js ::
  "real option \<Rightarrow> collidable_js list \<Rightarrow> real \<times> real \<times> real \<Rightarrow> drone_js \<Rightarrow> drone_js" where
  "collisionCheck_js dt collidables rnd d =
     (if crash_js dt collidables d then
        (case rnd of (r1, r2, r3) \<Rightarrow>
           d\<lparr>velocity_js := multiplyScalar_js (velocity_js d) (Some (- 0.5)),
             angularVelocity_js :=
               Vector3_js (Some ((r1 - 0.5) * 10)) (Some ((r2 - 0.5) * 10))
                          (Some ((r3 - 0.5) * 10))\<rparr>)
      else d)"

definition updatePosition_js :: "real option \<Rightarrow> drone_js \<Rightarrow> drone_js" where
  "updatePosition_js dt d =
     d\<lparr>position_js := add_js (position_js d) (multiplyScalar_js (velocity_js d) dt)\<rparr>"

definition groundCollision_js :: "drone_js \<Rightarrow> drone_js" where
  \<comment> \<open>The test \<open>position.y < 0.2\<close> is false when \<open>position.y\<close> is NaN.\<close>
  "groundCollision_js d =
     (if vy_js (position_js d) < Some 0.2 then
        d\<lparr>position_js := Vector3_js (vx_js (position_js d)) (Some 0.2) (vz_js (position_js d)),
          velocity_js := Vector3_js (vx_js (velocity_js d) * Some 0.8)
                                    (Math_max (Some 0) (vy_js (velocity_js d) * Some (- 0.5)))
                                    (vz_js (velocity_js d) * Some 0.8)\<rparr>
      else d)"

definition update_js ::
  "real option \<Rightarrow> real option control_input \<Rightarrow> collidable_js list \<Rightarrow> real \<times> real \<times> real
     \<Rightarrow> drone_js \<Rightarrow> drone_js" where
  "update_js dt input collidables rnd d =
     groundCollision_js
       (updatePosition_js dt
         (collisionCheck_js dt collidables rnd
           (linearPhysics_js dt input (applyRotation_js dt (rotationLogic_js dt input d)))))"

text \<open>A state, an input and a collidable of the model over the reals, as values of this one.\<close>

definition num_vec3 :: "vec3 \<Rightarrow> vec3_js" where
  "num_vec3 a = Vector3_js (Some (vx a)) (Some (vy a)) (Some (vz a))"

definition num_quat :: "quat \<Rightarrow> quat_js" where
  "num_quat q = Quaternion_js (Some (qx q)) (Some (qy q)) (Some (qz q)) (Some (qw q))"

definition num_drone :: "drone \<Rightarrow> drone_js" where
  "num_drone d =
     \<lparr> position_js = num_vec3 (position d), quaternion_js = num_quat (quaternion d),
       velocity_js = num_vec3 (velocity d), angularVelocity_js = num_vec3 (angularVelocity d),
       maxThrust_js = maxThrust d, drag_js = drag d, acroRate_js = acroRate d,
       angleRate_js = angleRate d, levelStrength_js = levelStrength d, gravity_js = gravity d,
       mode_js = mode d, collisionRadius_js = collisionRadius d \<rparr>"

definition num_input :: "real control_input \<Rightarrow> real option control_input" where
  "num_input i =
     \<lparr> thrust = Some (thrust i), yaw = Some (yaw i), pitch = Some (pitch i),
       roll = Some (roll i), toggleMode = toggleMode i \<rparr>"

definition real_vec3 :: "vec3_js \<Rightarrow> vec3 option" where
  "real_vec3 a =
     (case a of
        Vector3_js (Some x) (Some y) (Some z) \<Rightarrow> Some (Vector3 x y z)
      | _ \<Rightarrow> None)"

definition num_collidable :: "collidable \<Rightarrow> collidable_js" where
  \<comment> \<open>A ray with a NaN coordinate hits nothing.\<close>
  "num_collidable c origin direction =
     (case real_vec3 origin of
        None \<Rightarrow> []
      | Some ori \<Rightarrow> (case real_vec3 direction of None \<Rightarrow> [] | Some dir \<Rightarrow> c ori dir))"

text \<open>Stick positions used in the examples below.\<close>

definition sticks_centred :: "real control_input" where
  "sticks_centred = \<lparr>thrust = 0, yaw = 0, pitch = 0, roll = 0, toggleMode = False\<rparr>"

definition full_yaw :: "real control_input" where
  "full_yaw = \<lparr>thrust = 0, yaw = 1, pitch = 0, roll = 0, toggleMode = False\<rparr>"

definition full_pitch :: "real control_input" where
  "full_pitch = \<lparr>thrust = 0, yaw = 0, pitch = 1, roll = 0, toggleMode = False\<rparr>"

definition all_full :: "real control_input" where
  "all_full = \<lparr>thrust = 1, yaw = 1, pitch = 1, roll = 1, toggleMode = False\<rparr>"

section \<open>Properties of \<open>update\<close>\<close>

lemmas sticks_defs = sticks_centred_def full_yaw_def full_pitch_def all_full_def

lemmas update_defs = sticks_defs update_def groundCollision_def updatePosition_def collisionCheck_def
  linearPhysics_def applyRotation_def rotationLogic_def crash_def
  rotateX_def rotateY_def rotateZ_def rotateOnAxis_def setFromAxisAngle_def multiply_def
  applyQuaternion_def add_v_def multiplyScalar_def lerp_def new_Drone_def intersectObjects_def

lemma crash_Nil: "crash dt [] d = False"
  by (simp add: crash_def)

lemma length_v_axis:
  "length_v (Vector3 a 0 0) = \<bar>a\<bar>"
  "length_v (Vector3 0 b 0) = \<bar>b\<bar>"
  "length_v (Vector3 0 0 c) = \<bar>c\<bar>"
  by (simp_all add: length_v_def)

lemma angularVelocity_update:
  "angularVelocity (update dt input cs rnd d) =
     (if crash dt cs (linearPhysics dt input (applyRotation dt (rotationLogic dt input d)))
      then (case rnd of (r1, r2, r3) \<Rightarrow>
              Vector3 ((r1 - 0.5) * 10) ((r2 - 0.5) * 10) ((r3 - 0.5) * 10))
      else angularVelocity (rotationLogic dt input d))"
  by (simp add: update_def groundCollision_def updatePosition_def collisionCheck_def
      linearPhysics_def applyRotation_def Let_def split: prod.splits)

subsection \<open>Angular velocity: the two control laws\<close>

text \<open>
  Claim C1, as stated, fails: one frame of 1/100 s with full yaw stick from rest gives the
  yaw rate 0.8 in ACRO (blended) and 8 in LEVEL (assigned), so the yaw trajectories differ.
\<close>

theorem yaw_trajectories_differ:
  "map (vy \<circ> angularVelocity)
     (trajectory (new_Drone\<lparr>mode := ACRO\<rparr>) [Update (1 / 100) full_yaw [] (0, 0, 0)])
     = [4 / 5]
   \<and> map (vy \<circ> angularVelocity)
     (trajectory (new_Drone\<lparr>mode := LEVEL\<rparr>) [Update (1 / 100) full_yaw [] (0, 0, 0)])
     = [8]"
  by (simp add: angularVelocity_update crash_Nil rotationLogic_def lerp_def new_Drone_def
      Let_def sticks_defs)

text \<open>
  Claim C1, amended. Both modes steer the yaw rate to the same target,
  \<open>input.yaw * acroRate\<close>, but not by the same law: LEVEL assigns the target, ACRO blends the
  old yaw rate towards it by the factor \<open>dt * 10\<close>. When the collision branch is not taken,
  the two yaw rates after \<open>update\<close> are equal exactly when \<open>dt * 10 = 1\<close> or the old yaw rate
  already is the target.
\<close>

theorem yaw_rate_by_mode:
  assumes "\<not> crash dt cs (linearPhysics dt input
                (applyRotation dt (rotationLogic dt input (d\<lparr>mode := ACRO\<rparr>))))"
    and "\<not> crash dt cs (linearPhysics dt input
                (applyRotation dt (rotationLogic dt input (d\<lparr>mode := LEVEL\<rparr>))))"
  shows "vy (angularVelocity (update dt input cs rnd (d\<lparr>mode := LEVEL\<rparr>)))
           = yaw input * acroRate d
    \<and> vy (angularVelocity (update dt input cs rnd (d\<lparr>mode := ACRO\<rparr>)))
        = vy (angularVelocity d) + (yaw input * acroRate d - vy (angularVelocity d)) * (dt * 10)
    \<and> (vy (angularVelocity (update dt input cs rnd (d\<lparr>mode := ACRO\<rparr>)))
        = vy (angularVelocity (update dt input cs rnd (d\<lparr>mode := LEVEL\<rparr>)))
       \<longleftrightarrow> dt * 10 = 1 \<or> vy (angularVelocity d) = yaw input * acroRate d)"
proof -
  have L: "vy (angularVelocity (update dt input cs rnd (d\<lparr>mode := LEVEL\<rparr>)))
           = yaw input * acroRate d"
    using assms(2) by (simp add: angularVelocity_update) (simp add: rotationLogic_def Let_def)
  have A: "vy (angularVelocity (update dt input cs rnd (d\<lparr>mode := ACRO\<rparr>)))
        = vy (angularVelocity d) + (yaw input * acroRate d - vy (angularVelocity d)) * (dt * 10)"
    using assms(1)
    by (simp add: angularVelocity_update) (simp add: rotationLogic_def Let_def lerp_def)
  have "(a + (b - a) * t = b) \<longleftrightarrow> (t = 1 \<or> a = b)" for a b t :: real
  proof -
    have "(a + (b - a) * t = b) \<longleftrightarrow> ((b - a) * (t - 1) = 0)"
      by (simp add: algebra_simps)
    then show ?thesis by auto
  qed
  with L A show ?thesis by simp
qed

text \<open>
  With an obstacle in the scene but the drone slower than 0.1 after the frame, no crash is
  signalled and the two modes give the yaw rates 8 and 0.8.
\<close>

theorem yaw_rate_by_mode_witness:
  "\<not> crash (1 / 100) [\<lambda>origin direction. [1]]
       (linearPhysics (1 / 100) full_yaw
          (applyRotation (1 / 100) (rotationLogic (1 / 100) full_yaw (new_Drone\<lparr>mode := ACRO\<rparr>))))
   \<and> \<not> crash (1 / 100) [\<lambda>origin direction. [1]]
       (linearPhysics (1 / 100) full_yaw
          (applyRotation (1 / 100) (rotationLogic (1 / 100) full_yaw (new_Drone\<lparr>mode := LEVEL\<rparr>))))
   \<and> vy (angularVelocity (update (1 / 100) full_yaw [\<lambda>origin direction. [1]] (0, 0, 0)
         (new_Drone\<lparr>mode := LEVEL\<rparr>))) = 8
   \<and> vy (angularVelocity (update (1 / 100) full_yaw [\<lambda>origin direction. [1]] (0, 0, 0)
         (new_Drone\<lparr>mode := ACRO\<rparr>))) = 4 / 5"
proof -
  have v: "velocity (linearPhysics (1 / 100) full_yaw
          (applyRotation (1 / 100) (rotationLogic (1 / 100) full_yaw (new_Drone\<lparr>mode := m\<rparr>))))
           = Vector3 0 (- 0.0981) 0" for m
    by (simp add: linearPhysics_def multiplyScalar_def add_v_def Let_def
        applyRotation_def rotationLogic_def new_Drone_def sticks_defs)
  have n: "\<not> crash (1 / 100) [\<lambda>origin direction. [1]]
       (linearPhysics (1 / 100) full_yaw
          (applyRotation (1 / 100) (rotationLogic (1 / 100) full_yaw (new_Drone\<lparr>mode := m\<rparr>))))"
    for m
    unfolding crash_def v by (simp add: length_v_axis)
  from n yaw_rate_by_mode [OF n n, of "(0, 0, 0)"] show ?thesis
    by (simp add: new_Drone_def sticks_defs)
qed

lemma lerp_between:
  assumes "0 \<le> t" "t \<le> 1"
  shows "between a b (a + (b - a) * t)"
proof (cases "a \<le> b")
  case True
  then have "0 \<le> (b - a) * t" "(b - a) * t \<le> b - a"
    using assms by (simp_all add: mult_left_le)
  with True show ?thesis by (simp add: between_def)
next
  case False
  then have "0 \<le> (a - b) * t" "(a - b) * t \<le> a - b"
    using assms by (simp_all add: mult_left_le)
  moreover have "(b - a) * t = - ((a - b) * t)"
    by (simp add: algebra_simps)
  ultimately show ?thesis using False unfolding between_def by linarith
qed

text \<open>
  Claim C2 does not hold on the code for \<open>dt > 1/10\<close>: \<open>update\<close> passes \<open>dt * 10\<close> to
  \<open>lerp\<close> without a minimum with 1. At \<open>dt = 1/5\<close>, from rest with full pitch stick, the
  pitch rate becomes 16, twice \<open>acroRate\<close> ("Rad/s for full stick"), where \<open>lerp\<close> with
  factor \<open>min(1, dt * 10)\<close> gives 8, and 16 is not between 0 and the target 8.
\<close>

theorem acro_blend_overshoots:
  "0 \<le> (1 / 5 :: real)
   \<and> mode new_Drone = ACRO
   \<and> angularVelocity (update (1 / 5) full_pitch [] (0, 0, 0) new_Drone) = Vector3 16 0 0
   \<and> lerp (angularVelocity new_Drone)
        (Vector3 (1 * acroRate new_Drone) (0 * acroRate new_Drone) (0 * acroRate new_Drone))
        (min 1 (1 / 5 * 10)) = Vector3 8 0 0
   \<and> \<not> between (vx (angularVelocity new_Drone)) (1 * acroRate new_Drone) 16"
  by (simp add: angularVelocity_update crash_Nil rotationLogic_def lerp_def new_Drone_def
      Let_def between_def sticks_defs)

text \<open>
  With the stick released in the next frame of the same length the spin is not damped,
  as the comment "Already handled by lerp to target" has it, but reversed: 16 becomes -16.
\<close>

lemma released_stick_flips_spin:
  "angularVelocity (update (1 / 5) sticks_centred [] (0, 0, 0)
      (new_Drone\<lparr>angularVelocity := Vector3 16 0 0\<rparr>)) = Vector3 (- 16) 0 0"
  by (simp add: angularVelocity_update crash_Nil rotationLogic_def lerp_def new_Drone_def
      Let_def sticks_defs)

text \<open>
  For \<open>0 \<le> dt \<le> 1/10\<close> the code does what claim C2 says: the factor \<open>dt * 10\<close> is its own
  minimum with 1, and every component of the new angular velocity lies between its old
  value and the target.
\<close>

lemma acro_blend_small_dt:
  assumes "mode d = ACRO" and "0 \<le> dt" and "dt \<le> 1 / 10"
  shows "angularVelocity (rotationLogic dt input d)
           = lerp (angularVelocity d)
               (Vector3 (pitch input * acroRate d) (yaw input * acroRate d)
                        (roll input * acroRate d))
               (min 1 (dt * 10))
    \<and> between (vx (angularVelocity d)) (pitch input * acroRate d)
                (vx (angularVelocity (rotationLogic dt input d)))
    \<and> between (vy (angularVelocity d)) (yaw input * acroRate d)
                (vy (angularVelocity (rotationLogic dt input d)))
    \<and> between (vz (angularVelocity d)) (roll input * acroRate d)
                (vz (angularVelocity (rotationLogic dt input d)))"
proof -
  have m: "min 1 (dt * 10) = dt * 10"
    using assms(3) by simp
  have R: "angularVelocity (rotationLogic dt input d)
           = lerp (angularVelocity d)
               (Vector3 (pitch input * acroRate d) (yaw input * acroRate d)
                        (roll input * acroRate d))
               (dt * 10)"
    using assms(1) by (simp add: rotationLogic_def Let_def)
  have B: "between a b (a + (b - a) * (dt * 10))" for a b
    using assms(2,3) by (intro lerp_between) simp_all
  show ?thesis
    unfolding m R by (simp add: lerp_def B)
qed

subsection \<open>The collision branch\<close>

text \<open>
  Claim C3. Let \<open>s\<close> be the state when the collision check starts (after the velocity has
  been integrated). If the collision branch is taken, that is the collidables are not
  empty, the speed exceeds 0.1 and the nearest intersection is closer than
  \<open>max(collisionRadius, speed * dt * 2)\<close>, then the velocity after the branch is the velocity
  before it times \<open>-0.5\<close> (and so is the velocity after \<open>update\<close> when the floor is not hit),
  and every component of the angular velocity after \<open>update\<close> lies in \<open>[-5, 5]\<close>, for all
  random draws from \<open>[0, 1)\<close>.
\<close>

theorem collision_response:
  assumes s: "s = linearPhysics dt input (applyRotation dt (rotationLogic dt input d))"
    and "cs \<noteq> []"
    and "0.1 < length_v (velocity s)"
    and "intersectObjects cs (position s) (normalize_v (velocity s)) = nearest # rest"
    and "nearest < max (collisionRadius s) (length_v (velocity s) * dt * 2)"
    and "0 \<le> r1 \<and> r1 < 1" and "0 \<le> r2 \<and> r2 < 1" and "0 \<le> r3 \<and> r3 < 1"
  shows "velocity (collisionCheck dt cs (r1, r2, r3) s) = multiplyScalar (velocity s) (- 0.5)
    \<and> (0.2 \<le> vy (position (updatePosition dt (collisionCheck dt cs (r1, r2, r3) s)))
        \<longrightarrow> velocity (update dt input cs (r1, r2, r3) d) = multiplyScalar (velocity s) (- 0.5))
    \<and> - 5 \<le> vx (angularVelocity (update dt input cs (r1, r2, r3) d))
    \<and> vx (angularVelocity (update dt input cs (r1, r2, r3) d)) \<le> 5
    \<and> - 5 \<le> vy (angularVelocity (update dt input cs (r1, r2, r3) d))
    \<and> vy (angularVelocity (update dt input cs (r1, r2, r3) d)) \<le> 5
    \<and> - 5 \<le> vz (angularVelocity (update dt input cs (r1, r2, r3) d))
    \<and> vz (angularVelocity (update dt input cs (r1, r2, r3) d)) \<le> 5"
proof -
  have c: "crash dt cs s"
    using assms(2-5) by (simp add: crash_def Let_def)
  have v: "velocity (collisionCheck dt cs (r1, r2, r3) s) = multiplyScalar (velocity s) (- 0.5)"
    using c by (simp add: collisionCheck_def)
  have g: "velocity (update dt input cs (r1, r2, r3) d) = multiplyScalar (velocity s) (- 0.5)"
    if "0.2 \<le> vy (position (updatePosition dt (collisionCheck dt cs (r1, r2, r3) s)))"
    using that v by (simp add: update_def groundCollision_def s [symmetric] updatePosition_def)
  have a: "angularVelocity (update dt input cs (r1, r2, r3) d)
           = Vector3 ((r1 - 0.5) * 10) ((r2 - 0.5) * 10) ((r3 - 0.5) * 10)"
    using c by (simp add: angularVelocity_update s [symmetric])
  show ?thesis
    using v g assms(6-8) unfolding a by simp
qed

text \<open>
  A drone falling at 10 with an obstacle 1.8 below: after the frame of 1/10 s the speed is
  10.481, the look-ahead 2.0962, and the crash turns the velocity into 5.2405 upwards.
\<close>

theorem collision_response_witness:
  "[\<lambda>origin direction. [1.8 :: real]] \<noteq> []
   \<and> 0.1 < length_v (Vector3 0 (- 10.481) 0)
   \<and> intersectObjects [\<lambda>origin direction. [1.8]] (Vector3 0 2 0)
         (normalize_v (Vector3 0 (- 10.481) 0)) = 1.8 # []
   \<and> (1.8 :: real) < max 0.5 (length_v (Vector3 0 (- 10.481) 0) * (1 / 10) * 2)
   \<and> velocity (update (1 / 10) sticks_centred [\<lambda>origin direction. [1.8]] (0, 1 / 2, 9 / 10)
         (new_Drone\<lparr>velocity := Vector3 0 (- 10) 0\<rparr>)) = Vector3 0 5.2405 0
   \<and> angularVelocity (update (1 / 10) sticks_centred [\<lambda>origin direction. [1.8]] (0, 1 / 2, 9 / 10)
         (new_Drone\<lparr>velocity := Vector3 0 (- 10) 0\<rparr>)) = Vector3 (- 5) 0 4"
proof -
  define s where "s = linearPhysics (1 / 10) sticks_centred
      (applyRotation (1 / 10)
        (rotationLogic (1 / 10) sticks_centred (new_Drone\<lparr>velocity := Vector3 0 (- 10) 0\<rparr>)))"
  have s: "s = new_Drone\<lparr>velocity := Vector3 0 (- 10.481) 0\<rparr>"
    unfolding s_def by (simp add: update_defs Let_def)
  have h1: "[\<lambda>origin direction. [1.8 :: real]] \<noteq> []"
    by simp
  have h2: "0.1 < length_v (velocity s)"
    unfolding s by (simp add: length_v_axis)
  have h3: "intersectObjects [\<lambda>origin direction. [1.8]] (position s) (normalize_v (velocity s))
            = 1.8 # []"
    by (simp add: intersectObjects_def)
  have h4: "1.8 < max (collisionRadius s) (length_v (velocity s) * (1 / 10) * 2)"
    unfolding s by (simp add: length_v_axis new_Drone_def)
  have r: "0 \<le> (0 :: real) \<and> (0 :: real) < 1" "0 \<le> (1 / 2 :: real) \<and> (1 / 2 :: real) < 1"
    "0 \<le> (9 / 10 :: real) \<and> (9 / 10 :: real) < 1"
    by simp_all
  have g: "0.2 \<le> vy (position (updatePosition (1 / 10)
            (collisionCheck (1 / 10) [\<lambda>origin direction. [1.8]] (0, 1 / 2, 9 / 10) s)))"
    unfolding s by (simp add: updatePosition_def collisionCheck_def multiplyScalar_def add_v_def
        new_Drone_def split: if_splits)
  from collision_response [OF s_def h1 h2 h3 h4 r] g
  have v: "velocity (update (1 / 10) sticks_centred [\<lambda>origin direction. [1.8]] (0, 1 / 2, 9 / 10)
         (new_Drone\<lparr>velocity := Vector3 0 (- 10) 0\<rparr>)) = multiplyScalar (velocity s) (- 0.5)"
    by simp
  have c: "crash (1 / 10) [\<lambda>origin direction. [1.8]] s"
    using h2 h3 h4 by (simp add: crash_def Let_def)
  have a: "angularVelocity (update (1 / 10) sticks_centred [\<lambda>origin direction. [1.8]]
         (0, 1 / 2, 9 / 10) (new_Drone\<lparr>velocity := Vector3 0 (- 10) 0\<rparr>)) = Vector3 (- 5) 0 4"
    using c by (simp add: angularVelocity_update s_def [symmetric])
  have p: "position s = Vector3 0 2 0" "velocity s = Vector3 0 (- 10.481) 0"
    "collisionRadius s = 0.5"
    unfolding s by (simp_all add: new_Drone_def)
  show ?thesis
    using h2 h3 h4 v unfolding a p by (simp add: multiplyScalar_def)
qed

subsection \<open>The floor\<close>

lemma ground_update: "0.2 \<le> vy (position (update dt input cs rnd d))"
  by (simp add: update_def groundCollision_def)

lemma position_apply_call:
  assumes "0.2 \<le> vy (position d)"
  shows "0.2 \<le> vy (position (apply_call c d))"
proof (cases c)
  case (Update dt input cs rnd)
  then show ?thesis using ground_update [of dt input cs rnd d] by simp
next
  case (SetMode m)
  then show ?thesis using assms by (simp add: setMode_def)
qed

text \<open>
  As long as every number is a real (no NaN), the floor is an invariant: from a state whose
  \<open>position.y\<close> is at least 0.2, after every call of any sequence of \<open>update\<close> calls (any
  \<open>dt\<close>, input, collidables and random draws, with mode changes in between) \<open>position.y\<close>
  is at least 0.2.
\<close>

lemma ground_clamp_invariant:
  "0.2 \<le> vy (position d) \<Longrightarrow> \<forall>d' \<in> set (trajectory d calls). 0.2 \<le> vy (position d')"
proof (induction calls arbitrary: d)
  case Nil
  show ?case by simp
next
  case (Cons c calls)
  from Cons.prems have "0.2 \<le> vy (position (apply_call c d))"
    by (rule position_apply_call)
  with Cons.IH show ?case by simp
qed

text \<open>One second of free fall from the start position ends on the floor, at 0.2.\<close>

lemma ground_clamp_invariant_example:
  "0.2 \<le> vy (position new_Drone)
   \<and> 0.2 \<le> vy (position (update 1 sticks_centred [] (0, 0, 0) new_Drone))
   \<and> vy (position (update 1 sticks_centred [] (0, 0, 0) new_Drone)) = 0.2"
proof -
  have "0.2 \<le> vy (position new_Drone)"
    by (simp add: new_Drone_def)
  from ground_clamp_invariant [OF this, of "[Update 1 sticks_centred [] (0, 0, 0)]"]
  show ?thesis
    by (simp add: update_defs Let_def)
qed

text \<open>
  Claim C10. Let \<open>s\<close> be the state after the position has been integrated. If the ground
  clamp fires (\<open>position.y < 0.2\<close> in \<open>s\<close>), the vertical velocity after \<open>update\<close> is not
  negative: it is \<open>-0.5\<close> times the old one when that was negative and exactly 0 otherwise;
  the two horizontal components are scaled by 0.8.
\<close>

theorem ground_bounce:
  assumes s: "s = updatePosition dt (collisionCheck dt cs rnd
                    (linearPhysics dt input (applyRotation dt (rotationLogic dt input d))))"
    and "vy (position s) < 0.2"
  shows "0 \<le> vy (velocity (update dt input cs rnd d))
    \<and> vy (velocity (update dt input cs rnd d))
        = (if vy (velocity s) < 0 then - 0.5 * vy (velocity s) else 0)
    \<and> vx (velocity (update dt input cs rnd d)) = 0.8 * vx (velocity s)
    \<and> vz (velocity (update dt input cs rnd d)) = 0.8 * vz (velocity s)"
  using assms(2) unfolding update_def s [symmetric]
  by (simp add: groundCollision_def max_def)

text \<open>A drone skimming the floor at (1, 0, 1): gravity pulls it below 0.2 within the frame.\<close>

theorem ground_bounce_witness:
  "vy (position (updatePosition (1 / 10) (collisionCheck (1 / 10) [] (0, 0, 0)
        (linearPhysics (1 / 10) sticks_centred
          (applyRotation (1 / 10)
            (rotationLogic (1 / 10) sticks_centred
              (new_Drone\<lparr>position := Vector3 0 0.2 0, velocity := Vector3 1 0 1\<rparr>))))))) < 0.2
   \<and> velocity (update (1 / 10) sticks_centred [] (0, 0, 0)
         (new_Drone\<lparr>position := Vector3 0 0.2 0, velocity := Vector3 1 0 1\<rparr>))
       = Vector3 0.76 0.4905 0.76"
proof -
  have s: "updatePosition (1 / 10) (collisionCheck (1 / 10) [] (0, 0, 0)
        (linearPhysics (1 / 10) sticks_centred
          (applyRotation (1 / 10)
            (rotationLogic (1 / 10) sticks_centred
              (new_Drone\<lparr>position := Vector3 0 0.2 0, velocity := Vector3 1 0 1\<rparr>)))))
      = new_Drone\<lparr>position := Vector3 0.095 0.1019 0.095,
                   velocity := Vector3 0.95 (- 0.981) 0.95\<rparr>"
    by (simp add: update_defs Let_def)
  have h: "vy (position (new_Drone\<lparr>position := Vector3 0.095 0.1019 0.095,
              velocity := Vector3 0.95 (- 0.981) 0.95\<rparr>)) < 0.2"
    by simp
  from ground_bounce [OF s [symmetric] h] h show ?thesis
    unfolding s
    by (cases "velocity (update (1 / 10) sticks_centred [] (0, 0, 0)
         (new_Drone\<lparr>position := Vector3 0 0.2 0, velocity := Vector3 1 0 1\<rparr>))") simp
qed

subsection \<open>The orientation\<close>

lemma norm2_multiply:
  "qx (multiply a b) * qx (multiply a b) + qy (multiply a b) * qy (multiply a b)
   + qz (multiply a b) * qz (multiply a b) + qw (multiply a b) * qw (multiply a b)
   = (qx a * qx a + qy a * qy a + qz a * qz a + qw a * qw a)
     * (qx b * qx b + qy b * qy b + qz b * qz b + qw b * qw b)"
  by (simp add: multiply_def algebra_simps)

lemma length_q_multiply: "length_q (multiply a b) = length_q a * length_q b"
  unfolding length_q_def norm2_multiply by (simp add: real_sqrt_mult)

lemma sin_cos_sq: "sin (t::real) * sin t + cos t * cos t = 1"
  using sin_cos_squared_add [of t] by (simp add: power2_eq_square)

lemma length_q_axis:
  "length_q (setFromAxisAngle (Vector3 1 0 0) t) = 1"
  "length_q (setFromAxisAngle (Vector3 0 1 0) t) = 1"
  "length_q (setFromAxisAngle (Vector3 0 0 1) t) = 1"
  by (simp_all add: length_q_def setFromAxisAngle_def Let_def sin_cos_sq)

lemma length_q_update:
  "length_q (quaternion (update dt input cs rnd d)) = length_q (quaternion d)"
proof -
  have "quaternion (update dt input cs rnd d)
        = quaternion (applyRotation dt (rotationLogic dt input d))"
    by (simp add: update_def groundCollision_def updatePosition_def collisionCheck_def
        linearPhysics_def Let_def split: prod.splits)
  moreover have "length_q (quaternion (applyRotation dt e)) = length_q (quaternion e)" for e
    by (simp add: applyRotation_def rotateX_def rotateY_def rotateZ_def rotateOnAxis_def
        length_q_multiply length_q_axis)
  moreover have "quaternion (rotationLogic dt input d) = quaternion d"
    by (simp add: rotationLogic_def Let_def)
  ultimately show ?thesis by simp
qed

lemma length_q_apply_call: "length_q (quaternion (apply_call c d)) = length_q (quaternion d)"
  by (cases c) (simp_all add: length_q_update setMode_def)

text \<open>
  As long as every number is a real (no NaN), the unit norm is an invariant: from a
  unit-norm orientation, after every call of any sequence of \<open>update\<close> calls the orientation
  quaternion has norm exactly 1, since \<open>update\<close> multiplies it by three axis-angle
  quaternions, about X, Y and Z.
\<close>

lemma orientation_unit_norm:
  "length_q (quaternion d) = 1
   \<Longrightarrow> \<forall>d' \<in> set (trajectory d calls). length_q (quaternion d') = 1"
proof (induction calls arbitrary: d)
  case Nil
  show ?case by simp
next
  case (Cons c calls)
  from Cons.prems have "length_q (quaternion (apply_call c d)) = 1"
    by (simp add: length_q_apply_call)
  with Cons.IH show ?case by simp
qed

lemma orientation_unit_norm_example:
  "length_q (quaternion new_Drone) = 1
   \<and> length_q (quaternion (update (1 / 60) all_full [] (0, 0, 0) new_Drone)) = 1"
proof -
  have "length_q (quaternion new_Drone) = 1"
    by (simp add: new_Drone_def length_q_def)
  from this orientation_unit_norm [OF this, of "[Update (1 / 60) all_full [] (0, 0, 0)]"]
  show ?thesis
    by simp
qed

subsection \<open>Negative time steps\<close>

text \<open>
  Claim C9, as stated, fails: \<open>update\<close> has no check of \<open>dt\<close> and no error result. With
  \<open>dt = -1\<close> a drone at height 2 that falls at 10 is returned at height 7.19, still
  falling (at 5.19): the step was integrated backward.
\<close>

theorem negative_dt_accepted:
  "(- 1 :: real) < 0
   \<and> position (new_Drone\<lparr>velocity := Vector3 0 (- 10) 0\<rparr>) = Vector3 0 2 0
   \<and> position (update (- 1) sticks_centred [] (0, 0, 0) (new_Drone\<lparr>velocity := Vector3 0 (- 10) 0\<rparr>))
       = Vector3 0 7.19 0
   \<and> velocity (update (- 1) sticks_centred [] (0, 0, 0) (new_Drone\<lparr>velocity := Vector3 0 (- 10) 0\<rparr>))
       = Vector3 0 (- 5.19) 0"
  by (simp add: update_defs Let_def)

text \<open>
  Claim C9, amended. \<open>update\<close> accepts every \<open>dt\<close> and rejects none: for \<open>dt < 0\<close> it returns
  a state, integrated with that \<open>dt\<close>, that is backward: whenever the result is above the
  floor (the ground clamp did not fire), the new position is the old position plus the new
  velocity times the negative \<open>dt\<close>.
\<close>

theorem negative_dt_integrates:
  assumes "dt < 0" and "0.2 < vy (position (update dt input cs rnd d))"
  shows "position (update dt input cs rnd d)
         = add_v (position d) (multiplyScalar (velocity (update dt input cs rnd d)) dt)"
proof -
  define s where "s = collisionCheck dt cs rnd
                (linearPhysics dt input (applyRotation dt (rotationLogic dt input d)))"
  have u: "update dt input cs rnd d = groundCollision (updatePosition dt s)"
    by (simp add: update_def s_def)
  have p: "position s = position d"
    by (simp add: s_def collisionCheck_def linearPhysics_def applyRotation_def
        rotationLogic_def Let_def split: prod.splits)
  have n: "\<not> vy (position (updatePosition dt s)) < 0.2"
  proof
    assume "vy (position (updatePosition dt s)) < 0.2"
    then have "vy (position (update dt input cs rnd d)) = 0.2"
      by (simp add: u groundCollision_def)
    with assms(2) show False by simp
  qed
  then have "update dt input cs rnd d = updatePosition dt s"
    by (simp add: u groundCollision_def)
  then show ?thesis
    by (simp add: updatePosition_def p)
qed

theorem negative_dt_integrates_witness:
  "(- 1 :: real) < 0
   \<and> 0.2 < vy (position (update (- 1) sticks_centred [] (0, 0, 0)
         (new_Drone\<lparr>velocity := Vector3 0 (- 10) 0\<rparr>)))
   \<and> position (update (- 1) sticks_centred [] (0, 0, 0) (new_Drone\<lparr>velocity := Vector3 0 (- 10) 0\<rparr>))
       = add_v (Vector3 0 2 0) (multiplyScalar (Vector3 0 (- 5.19) 0) (- 1))"
proof -
  have u: "update (- 1) sticks_centred [] (0, 0, 0) (new_Drone\<lparr>velocity := Vector3 0 (- 10) 0\<rparr>)
           = new_Drone\<lparr>position := Vector3 0 7.19 0, velocity := Vector3 0 (- 5.19) 0\<rparr>"
    by (simp add: update_defs Let_def)
  have h: "0.2 < vy (position (update (- 1) sticks_centred [] (0, 0, 0)
         (new_Drone\<lparr>velocity := Vector3 0 (- 10) 0\<rparr>)))"
    unfolding u by simp
  have n: "(- 1 :: real) < 0"
    by simp
  from n h negative_dt_integrates [OF n h] show ?thesis
    unfolding u by (simp add: new_Drone_def add_v_def multiplyScalar_def)
qed

section \<open>Properties of \<open>getState\<close>\<close>

lemmas input_defs = getState_def gamepadInput_def keyboardInput_def getGamepad_def axis_def
  deadzone_def held_def onKeyDown_def onKeyUp_def onGamepadConnected_def
  onGamepadDisconnected_def new_InputHandler_def

text \<open>
  The keyboard path consumes the toggle: with no gamepad recorded and no key event between
  two polls, the second poll reports no toggle, whatever the first one did.
\<close>

lemma keyboard_toggle_consumed:
  assumes "gamepadIndex h = None"
  shows "\<exists>l. fst (getState gamepads (snd (getState gamepads h))) = Inr l \<and> \<not> toggleMode l"
  using assms by (simp add: getState_def gamepadInput_def keyboardInput_def Let_def)

text \<open>
  Claim C6 does not hold on the gamepad path. With a gamepad connected and its button 0 held
  down, two consecutive polls with no event in between both report \<open>toggleMode = True\<close>:
  \<open>getState\<close> copies \<open>gp.buttons[0].pressed\<close> into the result on every poll, where the
  keyboard flag is consumed by the first one.
\<close>

theorem gamepad_toggle_repeats:
  "fst (getState [Some \<lparr>axes = [0, 0, 0, 0], buttons = [True]\<rparr>]
          (onGamepadConnected 0 new_InputHandler))
     = Inr \<lparr>thrust = Some (1 / 2), yaw = Some 0, pitch = Some 0, roll = Some 0,
             toggleMode = True\<rparr>
   \<and> fst (getState [Some \<lparr>axes = [0, 0, 0, 0], buttons = [True]\<rparr>]
          (snd (getState [Some \<lparr>axes = [0, 0, 0, 0], buttons = [True]\<rparr>]
                  (onGamepadConnected 0 new_InputHandler))))
     = Inr \<lparr>thrust = Some (1 / 2), yaw = Some 0, pitch = Some 0, roll = Some 0,
             toggleMode = True\<rparr>"
  by (simp add: input_defs Let_def)

text \<open>
  Claim C7, as stated, fails when both keys of a pair are held: with \<open>KeyW\<close> and \<open>KeyS\<close> down
  and no gamepad, the pitch is 1, not 0.
\<close>

theorem both_keys_last_write_wins:
  "gamepadIndex (onKeyDown ''KeyS'' (onKeyDown ''KeyW'' new_InputHandler)) = None
   \<and> held (onKeyDown ''KeyS'' (onKeyDown ''KeyW'' new_InputHandler)) ''KeyW''
   \<and> held (onKeyDown ''KeyS'' (onKeyDown ''KeyW'' new_InputHandler)) ''KeyS''
   \<and> fst (getState [] (onKeyDown ''KeyS'' (onKeyDown ''KeyW'' new_InputHandler)))
     = Inr \<lparr>thrust = Some 0, yaw = Some 0, pitch = Some 1, roll = Some 0, toggleMode = False\<rparr>"
  by (simp add: input_defs Let_def)

text \<open>
  Claim C7, amended. With no gamepad recorded, \<open>getState\<close> does not fail and, for each of the
  three key pairs, returns the value of the one key held when only one is held, 0 when
  neither is held and, when both are held, the value of the key tested last: pitch is
  \<open>-1\<close> for \<open>KeyW\<close> and 1 for \<open>KeyS\<close> (both: 1); roll is \<open>-1\<close> for \<open>KeyA\<close> and 1 for \<open>KeyD\<close>
  (both: 1); yaw is 1 for \<open>KeyQ\<close> and \<open>-1\<close> for \<open>KeyE\<close> (both: \<open>-1\<close>).
\<close>

theorem key_pair_mapping:
  assumes "gamepadIndex h = None"
  shows "\<exists>l. fst (getState gamepads h) = Inr l
     \<and> pitch l = Some (if held h ''KeyS'' then 1 else if held h ''KeyW'' then - 1 else 0)
     \<and> roll l = Some (if held h ''KeyD'' then 1 else if held h ''KeyA'' then - 1 else 0)
     \<and> yaw l = Some (if held h ''KeyE'' then - 1 else if held h ''KeyQ'' then 1 else 0)"
  using assms by (simp add: getState_def gamepadInput_def keyboardInput_def held_def Let_def)

theorem key_pair_mapping_witness:
  "gamepadIndex (onKeyDown ''KeyQ'' (onKeyDown ''KeyW'' new_InputHandler)) = None
   \<and> fst (getState [] (onKeyDown ''KeyQ'' (onKeyDown ''KeyW'' new_InputHandler)))
     = Inr \<lparr>thrust = Some 0, yaw = Some 1, pitch = Some (- 1), roll = Some 0,
             toggleMode = False\<rparr>"
proof -
  have g: "gamepadIndex (onKeyDown ''KeyQ'' (onKeyDown ''KeyW'' new_InputHandler)) = None"
    by (simp add: input_defs Let_def)
  from key_pair_mapping [OF g, of "[]"]
  obtain l
    where l: "fst (getState [] (onKeyDown ''KeyQ'' (onKeyDown ''KeyW'' new_InputHandler))) = Inr l"
      and "pitch l = Some (- 1)" "roll l = Some 0" "yaw l = Some 1"
    by (auto simp add: held_def onKeyDown_def new_InputHandler_def Let_def)
  moreover have "thrust l = Some 0" "toggleMode l = False"
    using l by (auto simp add: input_defs Let_def)
  ultimately show ?thesis using g by (cases l) simp
qed

text \<open>
  With no gamepad recorded the keyboard decides the thrust, and with a reading present the
  keys have no influence on the result.
\<close>

lemma keyboard_thrust:
  assumes "gamepadIndex h = None"
  shows "\<exists>l. fst (getState gamepads h) = Inr l
     \<and> thrust l = Some (if held h ''ShiftLeft'' then 0 else if held h ''Space'' then 1 else 0)"
  using assms by (simp add: getState_def gamepadInput_def keyboardInput_def held_def Let_def)

lemma gamepad_overrides_keys:
  assumes "gamepadIndex h = Some index"
  shows "fst (getState gamepads (h\<lparr>keys := k\<rparr>)) = fst (getState gamepads h)"
  using assms
  by (simp add: getState_def gamepadInput_def keyboardInput_def Let_def
      split: option.splits list.splits)

text \<open>
  Claim C8 does not hold when a gamepad index is recorded but \<open>getGamepads()\<close> has no
  reading for it: neither the gamepad block nor the keyboard block runs and every axis is 0,
  although \<open>Space\<close> is held; the same keys with no gamepad recorded give thrust 1.
\<close>

theorem missing_reading_no_fallback:
  "gamepadIndex (onGamepadConnected 0 (onKeyDown ''Space'' new_InputHandler)) = Some 0
   \<and> getGamepad [None] 0 = None
   \<and> held (onGamepadConnected 0 (onKeyDown ''Space'' new_InputHandler)) ''Space''
   \<and> fst (getState [None] (onGamepadConnected 0 (onKeyDown ''Space'' new_InputHandler)))
     = Inr \<lparr>thrust = Some 0, yaw = Some 0, pitch = Some 0, roll = Some 0, toggleMode = False\<rparr>
   \<and> fst (getState [None] (onKeyDown ''Space'' new_InputHandler))
     = Inr \<lparr>thrust = Some 1, yaw = Some 0, pitch = Some 0, roll = Some 0, toggleMode = False\<rparr>"
  by (simp add: input_defs Let_def)

section \<open>Properties of \<open>update\<close> on numbers that may be NaN\<close>

lemma num_arith:
  "Some x + Some y = Some (x + y)" "None + b = None" "a + None = None"
  "Some x - Some y = Some (x - y)" "None - b = None" "a - None = None"
  "Some x * Some y = Some (x * y)" "None * b = None" "a * None = None"
  "Some x / Some y = Some (x / y)" "None / b = None" "a / None = None"
  "- Some x = Some (- x)" "- None = None"
  by (simp_all add: plus_option_def minus_option_def times_option_def divide_option_def
      uminus_option_def split: option.splits)

lemma num_compare:
  "Some x < Some y \<longleftrightarrow> x < y" "\<not> None < b" "\<not> a < None"
  "Some x \<le> Some y \<longleftrightarrow> x \<le> y" "\<not> None \<le> b" "\<not> a \<le> None"
  by (simp_all add: less_option_def less_eq_option_def split: option.splits)

lemma Math_simps:
  "Math_max (Some x) (Some y) = Some (max x y)" "Math_max None b = None" "Math_max a None = None"
  "Math_min (Some x) (Some y) = Some (min x y)" "Math_min None b = None" "Math_min a None = None"
  "Math_abs (Some x) = Some \<bar>x\<bar>" "Math_abs None = None"
  "Math_sqrt (Some x) = Some (sqrt x)" "Math_sqrt None = None"
  "Math_sin (Some x) = Some (sin x)" "Math_sin None = None"
  "Math_cos (Some x) = Some (cos x)" "Math_cos None = None"
  "Math_asin (Some x) = Some (arcsin x)" "Math_asin None = None"
  "Math_atan2 (Some y) (Some x) = Some (atan2 y x)" "Math_atan2 None a = None"
  "Math_atan2 b None = None"
  by (simp_all add: Math_max_def Math_min_def Math_abs_def Math_sqrt_def Math_sin_def
      Math_cos_def Math_asin_def Math_atan2_def split: option.splits)

lemmas num_simps = num_arith num_compare Math_simps

lemmas update_js_defs = update_js_def groundCollision_js_def updatePosition_js_def
  collisionCheck_js_def linearPhysics_js_def applyRotation_js_def rotationLogic_js_def
  crash_js_def rotateX_js_def rotateY_js_def rotateZ_js_def rotateOnAxis_js_def
  setFromAxisAngle_js_def multiply_js_def applyQuaternion_js_def add_js_def
  multiplyScalar_js_def lerp_js_def intersectObjects_js_def num_drone_def num_vec3_def
  num_quat_def new_Drone_def

subsection \<open>On numbers, \<open>update_js\<close> is \<open>update\<close>\<close>

lemma rotationLogic_num:
  "rotationLogic_js (Some dt) (num_input i) (num_drone d) = num_drone (rotationLogic dt i d)"
  by (simp add: rotationLogic_js_def rotationLogic_def num_input_def num_drone_def num_vec3_def
      num_quat_def lerp_js_def lerp_def setFromQuaternion_js_def setFromQuaternion_def
      clamp_js_def clamp_def Let_def num_simps)

lemma rotate_num:
  "rotateX_js (num_quat q) (Some t) = num_quat (rotateX q t)"
  "rotateY_js (num_quat q) (Some t) = num_quat (rotateY q t)"
  "rotateZ_js (num_quat q) (Some t) = num_quat (rotateZ q t)"
  by (simp_all add: rotateX_js_def rotateY_js_def rotateZ_js_def rotateX_def rotateY_def
      rotateZ_def rotateOnAxis_js_def rotateOnAxis_def setFromAxisAngle_js_def
      setFromAxisAngle_def Let_def multiply_js_def multiply_def num_quat_def num_simps)

lemma applyRotation_num:
  "applyRotation_js (Some dt) (num_drone d) = num_drone (applyRotation dt d)"
  by (simp add: applyRotation_js_def applyRotation_def num_drone_def rotate_num)
    (simp add: num_vec3_def rotate_num num_simps)

lemma linearPhysics_num:
  "linearPhysics_js (Some dt) (num_input i) (num_drone d) = num_drone (linearPhysics dt i d)"
  by (simp add: linearPhysics_js_def linearPhysics_def num_input_def num_drone_def num_vec3_def
      num_quat_def applyQuaternion_js_def applyQuaternion_def multiplyScalar_js_def
      multiplyScalar_def add_js_def add_v_def Let_def num_simps)

lemma length_num: "length_js (num_vec3 a) = Some (length_v a)"
  by (simp add: length_js_def length_v_def num_vec3_def num_simps)

lemma normalize_num: "normalize_js (num_vec3 a) = num_vec3 (normalize_v a)"
  unfolding normalize_js_def normalize_v_def length_num
  by (simp add: multiplyScalar_js_def multiplyScalar_def num_vec3_def num_simps)

lemma real_vec3_num: "real_vec3 (num_vec3 a) = Some a"
  by (simp add: real_vec3_def num_vec3_def)

lemma intersectObjects_num:
  "intersectObjects_js (map num_collidable cs) (num_vec3 ori) (num_vec3 dir)
   = intersectObjects cs ori dir"
  by (simp add: intersectObjects_js_def intersectObjects_def num_collidable_def comp_def
      real_vec3_num)

lemma crash_num:
  "crash_js (Some dt) (map num_collidable cs) (num_drone d) = crash dt cs d"
proof -
  have f: "velocity_js (num_drone d) = num_vec3 (velocity d)"
    "position_js (num_drone d) = num_vec3 (position d)"
    "collisionRadius_js (num_drone d) = collisionRadius d"
    by (simp_all add: num_drone_def)
  show ?thesis
    unfolding crash_js_def crash_def
    by (simp add: Let_def f length_num normalize_num intersectObjects_num num_simps
        split: list.splits)
qed

lemma collisionCheck_num:
  "collisionCheck_js (Some dt) (map num_collidable cs) rnd (num_drone d)
   = num_drone (collisionCheck dt cs rnd d)"
  unfolding collisionCheck_js_def collisionCheck_def crash_num
  by (simp add: num_drone_def num_vec3_def multiplyScalar_js_def multiplyScalar_def num_simps
      split: prod.splits)

lemma updatePosition_num:
  "updatePosition_js (Some dt) (num_drone d) = num_drone (updatePosition dt d)"
  by (simp add: updatePosition_js_def updatePosition_def num_drone_def num_vec3_def
      multiplyScalar_js_def multiplyScalar_def add_js_def add_v_def num_simps)

lemma groundCollision_num:
  "groundCollision_js (num_drone d) = num_drone (groundCollision d)"
  by (simp add: groundCollision_js_def groundCollision_def num_drone_def num_vec3_def num_simps)

text \<open>
  When the time step, the input and the state are numbers, the two models of \<open>update\<close>
  compute the same state.
\<close>

lemma update_num:
  "update_js (Some dt) (num_input i) (map num_collidable cs) rnd (num_drone d)
   = num_drone (update dt i cs rnd d)"
  by (simp add: update_js_def update_def rotationLogic_num applyRotation_num linearPhysics_num
      collisionCheck_num updatePosition_num groundCollision_num)

lemma ground_clamp_numbers:
  "Some 0.2 \<le> vy_js (position_js
      (update_js (Some dt) (num_input i) (map num_collidable cs) rnd (num_drone d)))"
  using ground_update [of dt i cs rnd d] unfolding update_num
  by (simp add: num_drone_def num_vec3_def num_simps)

lemma unit_norm_numbers:
  "length_q_js (quaternion_js
      (update_js (Some dt) (num_input i) (map num_collidable cs) rnd (num_drone d)))
   = Some (length_q (quaternion d))"
  unfolding update_num length_q_update [of dt i cs rnd d, symmetric]
  by (simp add: num_drone_def num_quat_def length_q_js_def length_q_def num_simps)

subsection \<open>An axis that is not a number\<close>

text \<open>
  A gamepad with two axes has no \<open>axes[2]\<close> and \<open>axes[3]\<close>: \<open>getState\<close> returns a pitch and
  a roll that are not numbers.
\<close>

lemma two_axis_gamepad_input:
  "fst (getState [Some \<lparr>axes = [0, 0], buttons = [False]\<rparr>]
          (onGamepadConnected 0 new_InputHandler))
     = Inr \<lparr>thrust = Some (1 / 2), yaw = Some 0, pitch = None, roll = None,
             toggleMode = False\<rparr>"
  by (simp add: getState_def gamepadInput_def keyboardInput_def getGamepad_def axis_def
      deadzone_def held_def onGamepadConnected_def new_InputHandler_def Let_def)

lemma update_js_two_axis:
  "update_js (Some (1 / 60))
        \<lparr>thrust = Some (1 / 2), yaw = Some 0, pitch = None, roll = None, toggleMode = False\<rparr>
        [] (0, 0, 0) (num_drone new_Drone)
   = (num_drone new_Drone)\<lparr>position_js := Vector3_js None None None,
        quaternion_js := Quaternion_js None None None None,
        velocity_js := Vector3_js None None None,
        angularVelocity_js := Vector3_js None (Some 0) None\<rparr>"
  by (simp add: update_js_defs Let_def num_simps)

text \<open>
  Claim C4 does not hold on the code when an input is not a number. One frame with the
  input \<open>getState\<close> returns for a two-axis gamepad, from the start state (height 2, at
  least 0.2) with \<open>dt = 1/60\<close>: the pitch rate, then the orientation, the thrust, the
  velocity and the position become NaN; the test \<open>position.y < 0.2\<close> is false for NaN, the
  clamp does not fire, and \<open>position.y \<ge> 0.2\<close> is false after \<open>update\<close>.
\<close>

theorem nan_input_defeats_ground_clamp:
  "fst (getState [Some \<lparr>axes = [0, 0], buttons = [False]\<rparr>]
          (onGamepadConnected 0 new_InputHandler))
     = Inr \<lparr>thrust = Some (1 / 2), yaw = Some 0, pitch = None, roll = None,
             toggleMode = False\<rparr>
   \<and> Some 0 \<le> Some (1 / 60 :: real)
   \<and> Some 0.2 \<le> vy_js (position_js (num_drone new_Drone))
   \<and> position_js (update_js (Some (1 / 60))
         \<lparr>thrust = Some (1 / 2), yaw = Some 0, pitch = None, roll = None, toggleMode = False\<rparr>
         [] (0, 0, 0) (num_drone new_Drone)) = Vector3_js None None None
   \<and> \<not> Some 0.2 \<le> vy_js (position_js (update_js (Some (1 / 60))
         \<lparr>thrust = Some (1 / 2), yaw = Some 0, pitch = None, roll = None, toggleMode = False\<rparr>
         [] (0, 0, 0) (num_drone new_Drone)))"
  unfolding update_js_two_axis two_axis_gamepad_input
  by (simp add: num_drone_def num_vec3_def new_Drone_def num_simps)

text \<open>
  Claim C5 does not hold on the code when an input is not a number. In the same frame the
  start orientation has norm 1, \<open>rotateX\<close> is called with a NaN angle, every component of
  the quaternion becomes NaN, and its norm is NaN: it is not 1, and not within \<open>1e-6\<close> of 1.
\<close>

theorem nan_input_defeats_unit_norm:
  "fst (getState [Some \<lparr>axes = [0, 0], buttons = [False]\<rparr>]
          (onGamepadConnected 0 new_InputHandler))
     = Inr \<lparr>thrust = Some (1 / 2), yaw = Some 0, pitch = None, roll = None,
             toggleMode = False\<rparr>
   \<and> length_q_js (quaternion_js (num_drone new_Drone)) = Some 1
   \<and> quaternion_js (update_js (Some (1 / 60))
         \<lparr>thrust = Some (1 / 2), yaw = Some 0, pitch = None, roll = None, toggleMode = False\<rparr>
         [] (0, 0, 0) (num_drone new_Drone)) = Quaternion_js None None None None
   \<and> length_q_js (quaternion_js (update_js (Some (1 / 60))
         \<lparr>thrust = Some (1 / 2), yaw = Some 0, pitch = None, roll = None, toggleMode = False\<rparr>
         [] (0, 0, 0) (num_drone new_Drone))) \<noteq> Some 1
   \<and> \<not> Math_abs (length_q_js (quaternion_js (update_js (Some (1 / 60))
         \<lparr>thrust = Some (1 / 2), yaw = Some 0, pitch = None, roll = None, toggleMode = False\<rparr>
         [] (0, 0, 0) (num_drone new_Drone))) - Some 1) \<le> Some (1 / 1000000)"
  unfolding update_js_two_axis two_axis_gamepad_input
  by (simp add: num_drone_def num_quat_def new_Drone_def length_q_js_def num_simps)

end
